theory Spec2Isabelle
  imports Main "HOL-Library.AList"
begin

section \<open>Virtual M8: the device state machine and the LED sysex encoder\<close>

text \<open>
  A shallow embedding of \<^verbatim>\<open>tools/virtual_m8.py\<close>: the class \<^verbatim>\<open>VirtualM8\<close> (its LED
  dictionary, the selected track, the shift flag and the two note handlers) and the
  function \<^verbatim>\<open>create_led_sysex\<close>.

  Notes, velocities and colour channels are Python integers, hence \<open>int\<close>. The
  dictionary \<^verbatim>\<open>led_state\<close> is an association list in insertion order: Python's
  \<^verbatim>\<open>d[k] = v\<close> overwrites the value of a present key in place and appends an absent
  key, which is what \<open>AList.update\<close> does, and \<^verbatim>\<open>list(d.items())\<close> is the list itself.
  The methods mutate \<^verbatim>\<open>self\<close>; the model passes the object in and returns it updated.
  \<^verbatim>\<open>log\<close> prints one line on the console; the model returns the lines a call prints, as
  values, next to the result.
\<close>

subsection \<open>Protocol constants\<close>

type_synonym color = "int \<times> int \<times> int"

definition LPP_SYSEX_HEADER :: "int list" where
  "LPP_SYSEX_HEADER = [0x00, 0x20, 0x29, 0x02, 0x10]"

definition LED_MODE_RGB :: int where
  "LED_MODE_RGB = 0x0B"

datatype color_name =
  Off | White | Red | Green | Blue | Yellow | Cyan | Magenta | Orange | Pink
  | Dim_white | Dim_red | Dim_green | Dim_blue

fun M8_COLORS :: "color_name \<Rightarrow> color" where
  "M8_COLORS Off = (0, 0, 0)"
| "M8_COLORS White = (63, 63, 63)"
| "M8_COLORS Red = (63, 0, 0)"
| "M8_COLORS Green = (0, 63, 0)"
| "M8_COLORS Blue = (0, 0, 63)"
| "M8_COLORS Yellow = (63, 63, 0)"
| "M8_COLORS Cyan = (0, 63, 63)"
| "M8_COLORS Magenta = (63, 0, 63)"
| "M8_COLORS Orange = (63, 32, 0)"
| "M8_COLORS Pink = (63, 20, 40)"
| "M8_COLORS Dim_white = (20, 20, 20)"
| "M8_COLORS Dim_red = (20, 0, 0)"
| "M8_COLORS Dim_green = (0, 20, 0)"
| "M8_COLORS Dim_blue = (0, 0, 20)"

subsection \<open>The device state\<close>

type_synonym led_dict = "(int \<times> color) list"

type_synonym updates = "(int \<times> color) list"

record VirtualM8 =
  verbose :: bool
  led_state :: led_dict
  current_track :: int
  current_view :: string
  shift_held :: bool

text \<open>The console lines of \<^verbatim>\<open>log\<close>, by the message they carry.\<close>

datatype log_line =
  Button_ON int int
  | Button_OFF int
  | Track_selected int

text \<open>\<^verbatim>\<open>range(a, b)\<close> of Python.\<close>

definition py_range :: "int \<Rightarrow> int \<Rightarrow> int list" where
  "py_range a b = [a..b - 1]"

text \<open>\<^verbatim>\<open>self.led_state[note] = color\<close>.\<close>

definition set_led :: "int \<Rightarrow> color \<Rightarrow> VirtualM8 \<Rightarrow> VirtualM8" where
  "set_led note c self = self\<lparr>led_state := AList.update note c (led_state self)\<rparr>"

definition init_leds :: "VirtualM8 \<Rightarrow> VirtualM8" where
  "init_leds self =
     (let self1 = fold (\<lambda>row s. fold (\<lambda>col. set_led (row * 10 + col) (M8_COLORS Dim_white))
                                   (py_range 1 9) s)
                       (py_range 1 9) self;
          self2 = fold (\<lambda>(i, note). if i = 0 then set_led note (M8_COLORS Cyan)
                                     else set_led note (M8_COLORS Dim_white))
                       (enumerate 0 (py_range 91 99)) self1;
          self3 = set_led 89 (M8_COLORS Dim_blue) self2;
          self4 = set_led 79 (M8_COLORS Dim_blue) self3;
          self5 = set_led 69 (M8_COLORS Dim_blue) self4
      in set_led 59 (M8_COLORS Dim_blue) self5)"

text \<open>\<^verbatim>\<open>VirtualM8.__init__\<close>.\<close>

definition VirtualM8_init :: "bool \<Rightarrow> VirtualM8" where
  "VirtualM8_init v =
     init_leds \<lparr>verbose = v, led_state = [], current_track = 0,
                current_view = ''song'', shift_held = False\<rparr>"

subsection \<open>The handlers\<close>

definition select_track :: "int \<Rightarrow> VirtualM8 \<Rightarrow> VirtualM8 \<times> log_line list" where
  "select_track track self = (self\<lparr>current_track := track\<rparr>, [Track_selected (track + 1)])"

definition get_track_led_updates :: "VirtualM8 \<Rightarrow> updates \<times> VirtualM8" where
  "get_track_led_updates self =
     fold (\<lambda>i (ups, s).
             let note = 91 + i;
                 c = (if i = current_track s then M8_COLORS Cyan else M8_COLORS Dim_white)
             in (ups @ [(note, c)], set_led note c s))
          (py_range 0 8) ([], self)"

text \<open>
  \<^verbatim>\<open>_handle_nav\<close> reads \<^verbatim>\<open>self.led_state[note]\<close> back right after writing it, so the
  read finds the key (lemma \<open>handle_nav_read\<close> below).
\<close>

definition handle_nav :: "int \<Rightarrow> bool \<Rightarrow> VirtualM8 \<Rightarrow> updates \<times> VirtualM8" where
  "handle_nav note pressed self =
     (let self1 = (if pressed then set_led note (M8_COLORS Blue) self
                   else set_led note (M8_COLORS Dim_blue) self)
      in ([(note, the (map_of (led_state self1) note))], self1))"

text \<open>
  The handlers return the update list, the object after the call and the lines logged.
\<close>

definition handle_note_on ::
  "int \<Rightarrow> int \<Rightarrow> VirtualM8 \<Rightarrow> updates \<times> VirtualM8 \<times> log_line list" where
  "handle_note_on note velocity self =
     (let out = [Button_ON note velocity] in
      if 91 \<le> note \<and> note \<le> 98 then
        (let track = note - 91;
             (self1, out1) = select_track track self;
             (ups, self2) = get_track_led_updates self1
         in (ups, self2, out @ out1))
      else if note \<in> set [89, 79, 69, 59] then
        (let (ups, self1) = handle_nav note True self in (ups, self1, out))
      else if 11 \<le> note \<and> note \<le> 88 \<and> note mod 10 \<noteq> 0 \<and> note mod 10 \<noteq> 9 then
        ([(note, M8_COLORS White)], set_led note (M8_COLORS White) self, out)
      else if note = 106 then
        ([(note, M8_COLORS Orange)], self\<lparr>shift_held := True\<rparr>, out)
      else ([], self, out))"

definition handle_note_off ::
  "int \<Rightarrow> int \<Rightarrow> VirtualM8 \<Rightarrow> updates \<times> VirtualM8 \<times> log_line list" where
  "handle_note_off note velocity self =
     (let out = [Button_OFF note] in
      if 11 \<le> note \<and> note \<le> 88 \<and> note mod 10 \<noteq> 0 \<and> note mod 10 \<noteq> 9 then
        ([(note, M8_COLORS Dim_white)], set_led note (M8_COLORS Dim_white) self, out)
      else if note \<in> set [89, 79, 69, 59] then
        (let (ups, self1) = handle_nav note False self in (ups, self1, out))
      else if note = 106 then
        ([(note, M8_COLORS Dim_white)], self\<lparr>shift_held := False\<rparr>, out)
      else ([], self, out))"

definition get_all_leds :: "VirtualM8 \<Rightarrow> (int \<times> color) list" where
  "get_all_leds self = led_state self"

subsection \<open>The encoder\<close>

text \<open>
  \<^verbatim>\<open>create_led_sysex\<close> ends in \<^verbatim>\<open>mido.Message('sysex', data=data)\<close>. The message
  object holds the payload \<open>data\<close>; the framing bytes F0 and F7 are the library's. The
  constructor checks every data byte and raises \<^verbatim>\<open>ValueError\<close> for one outside 0..127,
  which leaves \<^verbatim>\<open>create_led_sysex\<close> as an exception: \<open>Inl ValueError\<close> here.
\<close>

datatype py_error = ValueError

datatype message = Sysex (data: "int list")

definition check_data_byte :: "int \<Rightarrow> bool" where
  "check_data_byte x \<longleftrightarrow> 0 \<le> x \<and> x \<le> 127"

definition mido_Message_sysex :: "int list \<Rightarrow> py_error + message" where
  "mido_Message_sysex d = (if list_all check_data_byte d then Inr (Sysex d) else Inl ValueError)"

definition create_led_sysex :: "updates \<Rightarrow> py_error + message option" where
  "create_led_sysex ups =
     (if ups = [] then Inr None
      else (case mido_Message_sysex
                   (fold (\<lambda>(note, (r, g, b)) d. d @ [note, r, g, b]) ups
                         (LPP_SYSEX_HEADER @ [LED_MODE_RGB]))
            of Inl e \<Rightarrow> Inl e
             | Inr m \<Rightarrow> Inr (Some m)))"

subsection \<open>Vocabulary of the specification\<close>

text \<open>
  A grid cell is a two-digit identifier whose decimal digits both lie in 1..8. The
  handlers test it as \<open>11 \<le> note \<le> 88\<close> with a last digit other than 0 and 9; lemma
  \<open>grid_cell_iff\<close> shows the two agree.
\<close>

definition grid_cell :: "int \<Rightarrow> bool" where
  "grid_cell c \<longleftrightarrow>
     10 \<le> c \<and> c \<le> 99 \<and> 1 \<le> c div 10 \<and> c div 10 \<le> 8 \<and> 1 \<le> c mod 10 \<and> c mod 10 \<le> 8"

text \<open>
  The controls lit at boot: the 64 grid cells, the 8 track selectors and the 4
  navigation notes.
\<close>

definition is_boot_control :: "int \<Rightarrow> bool" where
  "is_boot_control c \<longleftrightarrow>
     grid_cell c \<or> (91 \<le> c \<and> c \<le> 98) \<or> c \<in> set [89, 79, 69, 59]"

definition boot_controls :: "int set" where
  "boot_controls = {c. is_boot_control c}"

text \<open>
  The boot pattern: grid dimmed, first track selector highlighted, the other selectors
  and the navigation controls dimmed.
\<close>

definition boot_pattern :: led_dict where
  "boot_pattern =
     map (\<lambda>n. (n, M8_COLORS Dim_white))
         (concat (map (\<lambda>row. map (\<lambda>col. row * 10 + col) [1..8]) [1..8]))
     @ (91, M8_COLORS Cyan) # map (\<lambda>n. (n, M8_COLORS Dim_white)) [92..98]
     @ map (\<lambda>n. (n, M8_COLORS Dim_blue)) [89, 79, 69, 59]"

text \<open>The colour of selector \<open>i\<close> when track \<open>t\<close> is the selected one.\<close>

definition track_color :: "int \<Rightarrow> int \<Rightarrow> color" where
  "track_color t i = (if i = t then M8_COLORS Cyan else M8_COLORS Dim_white)"

text \<open>
  The states the device can be in: the boot state, and any state a handler call leads
  to from one of them, for any note and velocity.
\<close>

inductive reachable :: "VirtualM8 \<Rightarrow> bool" where
  boot: "reachable (VirtualM8_init v)"
| note_on:
    "reachable self \<Longrightarrow> handle_note_on n velocity self = (ups, self', out) \<Longrightarrow> reachable self'"
| note_off:
    "reachable self \<Longrightarrow> handle_note_off n velocity self = (ups, self', out) \<Longrightarrow> reachable self'"

text \<open>
  An update whose note and three channels are all data bytes the message constructor
  accepts.
\<close>

definition update_bytes_ok :: "int \<times> color \<Rightarrow> bool" where
  "update_bytes_ok u =
     (case u of (n, (r, g, b)) \<Rightarrow>
        check_data_byte n \<and> check_data_byte r \<and> check_data_byte g \<and> check_data_byte b)"

text \<open>The four bytes one update contributes to the payload.\<close>

definition quad_bytes :: "int \<times> color \<Rightarrow> int list" where
  "quad_bytes u = (case u of (n, (r, g, b)) \<Rightarrow> [n, r, g, b])"

text \<open>
  Reading a payload back: the quads that follow the vendor header and the mode byte,
  and whether every colour channel of every quad lies in 0..63.
\<close>

fun quads :: "int list \<Rightarrow> (int \<times> int \<times> int \<times> int) list" where
  "quads (n # r # g # b # rest) = (n, r, g, b) # quads rest"
| "quads _ = []"

definition frame_quads :: "message \<Rightarrow> (int \<times> int \<times> int \<times> int) list" where
  "frame_quads m = quads (drop (length LPP_SYSEX_HEADER + 1) (data m))"

definition channel_ok :: "int \<Rightarrow> bool" where
  "channel_ok x \<longleftrightarrow> 0 \<le> x \<and> x \<le> 63"

definition color_ok :: "color \<Rightarrow> bool" where
  "color_ok c = (case c of (r, g, b) \<Rightarrow> channel_ok r \<and> channel_ok g \<and> channel_ok b)"

definition channels_clamped :: "message \<Rightarrow> bool" where
  "channels_clamped m \<longleftrightarrow>
     list_all (\<lambda>(n, r, g, b). color_ok (r, g, b)) (frame_quads m)"

section \<open>Properties\<close>

subsection \<open>The role tests\<close>

lemma grid_cell_iff:
  "grid_cell c \<longleftrightarrow> 11 \<le> c \<and> c \<le> 88 \<and> c mod 10 \<noteq> 0 \<and> c mod 10 \<noteq> 9"
  unfolding grid_cell_def by presburger

subsection \<open>What each branch of the handlers computes\<close>

lemma py_range_0_8: "py_range 0 8 = [0, 1, 2, 3, 4, 5, 6, 7]"
  by (simp add: py_range_def upto_rec1)

lemma get_track_led_updates_unfold:
  "get_track_led_updates self =
     (map (\<lambda>i. (91 + i, track_color (current_track self) i)) [0, 1, 2, 3, 4, 5, 6, 7],
      self\<lparr>led_state :=
        fold (\<lambda>i. AList.update (91 + i) (track_color (current_track self) i))
             [0, 1, 2, 3, 4, 5, 6, 7] (led_state self)\<rparr>)"
  by (simp add: get_track_led_updates_def py_range_0_8 set_led_def track_color_def Let_def)

lemma handle_note_on_track:
  assumes "91 \<le> n" "n \<le> 98"
  shows "handle_note_on n velocity self =
     (map (\<lambda>i. (91 + i, track_color (n - 91) i)) [0, 1, 2, 3, 4, 5, 6, 7],
      self\<lparr>current_track := n - 91,
           led_state :=
             fold (\<lambda>i. AList.update (91 + i) (track_color (n - 91) i))
                  [0, 1, 2, 3, 4, 5, 6, 7] (led_state self)\<rparr>,
      [Button_ON n velocity, Track_selected (n - 91 + 1)])"
  using assms
  by (simp add: handle_note_on_def select_track_def get_track_led_updates_unfold Let_def)

lemma handle_nav_read: "map_of (led_state (set_led n c self)) n = Some c"
  by (simp add: set_led_def update_conv')

lemma handle_nav_eq:
  "handle_nav n pressed self =
     ([(n, if pressed then M8_COLORS Blue else M8_COLORS Dim_blue)],
      set_led n (if pressed then M8_COLORS Blue else M8_COLORS Dim_blue) self)"
  by (simp add: handle_nav_def handle_nav_read Let_def del: M8_COLORS.simps)

lemma handle_note_on_nav:
  assumes "n = 89 \<or> n = 79 \<or> n = 69 \<or> n = 59"
  shows "handle_note_on n velocity self =
     ([(n, M8_COLORS Blue)], set_led n (M8_COLORS Blue) self, [Button_ON n velocity])"
  using assms by (auto simp add: handle_note_on_def handle_nav_eq Let_def)

lemma handle_note_off_nav:
  assumes "n = 89 \<or> n = 79 \<or> n = 69 \<or> n = 59"
  shows "handle_note_off n velocity self =
     ([(n, M8_COLORS Dim_blue)], set_led n (M8_COLORS Dim_blue) self, [Button_OFF n])"
  using assms by (auto simp add: handle_note_off_def handle_nav_eq Let_def)

lemma handle_note_on_grid:
  assumes "11 \<le> n" "n \<le> 88" "n mod 10 \<noteq> 0" "n mod 10 \<noteq> 9"
  shows "handle_note_on n velocity self =
     ([(n, M8_COLORS White)], set_led n (M8_COLORS White) self, [Button_ON n velocity])"
  using assms by (auto simp add: handle_note_on_def Let_def)

lemma handle_note_off_grid:
  assumes "11 \<le> n" "n \<le> 88" "n mod 10 \<noteq> 0" "n mod 10 \<noteq> 9"
  shows "handle_note_off n velocity self =
     ([(n, M8_COLORS Dim_white)], set_led n (M8_COLORS Dim_white) self, [Button_OFF n])"
  using assms by (auto simp add: handle_note_off_def Let_def)

lemma handle_note_on_shift:
  "handle_note_on 106 velocity self =
     ([(106, M8_COLORS Orange)], self\<lparr>shift_held := True\<rparr>, [Button_ON 106 velocity])"
  by (simp add: handle_note_on_def Let_def)

lemma handle_note_off_shift:
  "handle_note_off 106 velocity self =
     ([(106, M8_COLORS Dim_white)], self\<lparr>shift_held := False\<rparr>, [Button_OFF 106])"
  by (simp add: handle_note_off_def Let_def)

lemma handle_note_on_other:
  assumes "\<not> (91 \<le> n \<and> n \<le> 98)" "\<not> (n = 89 \<or> n = 79 \<or> n = 69 \<or> n = 59)"
    "\<not> (11 \<le> n \<and> n \<le> 88 \<and> n mod 10 \<noteq> 0 \<and> n mod 10 \<noteq> 9)" "n \<noteq> 106"
  shows "handle_note_on n velocity self = ([], self, [Button_ON n velocity])"
  using assms by (auto simp add: handle_note_on_def Let_def)

lemma handle_note_off_other:
  assumes "\<not> (n = 89 \<or> n = 79 \<or> n = 69 \<or> n = 59)"
    "\<not> (11 \<le> n \<and> n \<le> 88 \<and> n mod 10 \<noteq> 0 \<and> n mod 10 \<noteq> 9)" "n \<noteq> 106"
  shows "handle_note_off n velocity self = ([], self, [Button_OFF n])"
  using assms by (auto simp add: handle_note_off_def Let_def)

subsection \<open>The boot state\<close>

lemma boot_leds: "led_state (VirtualM8_init v) = boot_pattern"
  by code_simp

lemma boot_pattern_key_list:
  "map fst boot_pattern =
     [11, 12, 13, 14, 15, 16, 17, 18, 21, 22, 23, 24, 25, 26, 27, 28,
      31, 32, 33, 34, 35, 36, 37, 38, 41, 42, 43, 44, 45, 46, 47, 48,
      51, 52, 53, 54, 55, 56, 57, 58, 61, 62, 63, 64, 65, 66, 67, 68,
      71, 72, 73, 74, 75, 76, 77, 78, 81, 82, 83, 84, 85, 86, 87, 88,
      91, 92, 93, 94, 95, 96, 97, 98, 89, 79, 69, 59]"
  by code_simp

lemma boot_pattern_keys_range: "\<forall>y\<in>set (map fst boot_pattern). 11 \<le> y \<and> y \<le> 98"
  by code_simp

lemma boot_pattern_keys_enum:
  "\<forall>y\<in>set [11..98]. is_boot_control y \<longleftrightarrow> y \<in> set (map fst boot_pattern)"
  by code_simp

lemma is_boot_control_range: "is_boot_control y \<Longrightarrow> 11 \<le> y \<and> y \<le> 98"
  unfolding is_boot_control_def grid_cell_def by (auto; presburger)

lemma boot_pattern_keys: "set (map fst boot_pattern) = boot_controls"
proof -
  have "x \<in> set (map fst boot_pattern) \<longleftrightarrow> is_boot_control x" for x
  proof (cases "11 \<le> x \<and> x \<le> 98")
    case True
    then have "x \<in> set [11..98]" by (simp only: set_upto atLeastAtMost_iff)
    with boot_pattern_keys_enum show ?thesis by blast
  next
    case False
    with boot_pattern_keys_range is_boot_control_range show ?thesis by blast
  qed
  then show ?thesis unfolding boot_controls_def by blast
qed

lemma boot_pattern_distinct: "distinct (map fst boot_pattern)"
  unfolding boot_pattern_key_list by simp

lemma boot_pattern_length: "length boot_pattern = 76"
  using arg_cong [OF boot_pattern_key_list, of length] by simp

subsection \<open>The keys of the LED dictionary\<close>

lemma set_led_keys:
  "n \<in> fst ` set (led_state s) \<Longrightarrow>
   map fst (led_state (set_led n c s)) = map fst (led_state s)"
  by (simp add: set_led_def update_keys)

lemma fold_update_keys:
  "\<forall>k\<in>set ks. f k \<in> fst ` set al \<Longrightarrow>
   map fst (fold (\<lambda>k. AList.update (f k) (g k)) ks al) = map fst al"
proof (induction ks arbitrary: al)
  case Nil
  then show ?case by simp
next
  case (Cons k ks)
  have keep: "map fst (AList.update (f k) (g k) al) = map fst al"
    using Cons.prems by (simp add: update_keys)
  have "\<forall>k'\<in>set ks. f k' \<in> fst ` set (AList.update (f k) (g k) al)"
    using Cons.prems keep by (metis list.set_intros(2) list.set_map)
  from Cons.IH [OF this] keep show ?case by simp
qed

lemma handle_note_on_keys:
  assumes "boot_controls \<subseteq> fst ` set (led_state self)"
  shows "map fst (led_state (fst (snd (handle_note_on n velocity self)))) =
         map fst (led_state self)"
proof -
  consider (track) "91 \<le> n \<and> n \<le> 98"
    | (nav) "n = 89 \<or> n = 79 \<or> n = 69 \<or> n = 59"
    | (grid) "11 \<le> n \<and> n \<le> 88 \<and> n mod 10 \<noteq> 0 \<and> n mod 10 \<noteq> 9"
    | (shift) "n = 106"
    | (other) "\<not> (91 \<le> n \<and> n \<le> 98)" "\<not> (n = 89 \<or> n = 79 \<or> n = 69 \<or> n = 59)"
        "\<not> (11 \<le> n \<and> n \<le> 88 \<and> n mod 10 \<noteq> 0 \<and> n mod 10 \<noteq> 9)" "n \<noteq> 106"
    by argo
  then show ?thesis
  proof cases
    case track
    have "\<forall>k\<in>set [0, 1, 2, 3, 4, 5, 6, 7::int]. 91 + k \<in> fst ` set (led_state self)"
      using assms by (auto simp: boot_controls_def is_boot_control_def)
    from fold_update_keys [OF this] track show ?thesis
      by (simp add: handle_note_on_track)
  next
    case nav
    then have "n \<in> fst ` set (led_state self)"
      using assms by (auto simp: boot_controls_def is_boot_control_def)
    with nav show ?thesis by (simp add: handle_note_on_nav set_led_keys)
  next
    case grid
    then have "n \<in> fst ` set (led_state self)"
      using assms by (auto simp: boot_controls_def is_boot_control_def grid_cell_iff)
    with grid show ?thesis by (simp add: handle_note_on_grid set_led_keys)
  next
    case shift
    then show ?thesis by (simp add: handle_note_on_shift)
  next
    case other
    then show ?thesis by (simp add: handle_note_on_other)
  qed
qed

lemma handle_note_off_keys:
  assumes "boot_controls \<subseteq> fst ` set (led_state self)"
  shows "map fst (led_state (fst (snd (handle_note_off n velocity self)))) =
         map fst (led_state self)"
proof -
  consider (grid) "11 \<le> n \<and> n \<le> 88 \<and> n mod 10 \<noteq> 0 \<and> n mod 10 \<noteq> 9"
    | (nav) "n = 89 \<or> n = 79 \<or> n = 69 \<or> n = 59"
    | (shift) "n = 106"
    | (other) "\<not> (n = 89 \<or> n = 79 \<or> n = 69 \<or> n = 59)"
        "\<not> (11 \<le> n \<and> n \<le> 88 \<and> n mod 10 \<noteq> 0 \<and> n mod 10 \<noteq> 9)" "n \<noteq> 106"
    by argo
  then show ?thesis
  proof cases
    case grid
    then have "n \<in> fst ` set (led_state self)"
      using assms by (auto simp: boot_controls_def is_boot_control_def grid_cell_iff)
    with grid show ?thesis by (simp add: handle_note_off_grid set_led_keys)
  next
    case nav
    then have "n \<in> fst ` set (led_state self)"
      using assms by (auto simp: boot_controls_def is_boot_control_def)
    with nav show ?thesis by (simp add: handle_note_off_nav set_led_keys)
  next
    case shift
    then show ?thesis by (simp add: handle_note_off_shift)
  next
    case other
    then show ?thesis by (simp add: handle_note_off_other)
  qed
qed

lemma reachable_keys:
  "reachable self \<Longrightarrow> map fst (led_state self) = map fst boot_pattern"
proof (induction rule: reachable.induct)
  case (boot v)
  show ?case by (simp add: boot_leds)
next
  case (note_on self n velocity ups self' out)
  have "boot_controls \<subseteq> fst ` set (led_state self)"
    using note_on.IH boot_pattern_keys by (metis list.set_map order_refl)
  from handle_note_on_keys [OF this, of n velocity] note_on show ?case by simp
next
  case (note_off self n velocity ups self' out)
  have "boot_controls \<subseteq> fst ` set (led_state self)"
    using note_off.IH boot_pattern_keys by (metis list.set_map order_refl)
  from handle_note_off_keys [OF this, of n velocity] note_off show ?case by simp
qed

subsection \<open>The payload of a frame\<close>

lemma fold_extend:
  "fold (\<lambda>(n, (r, g, b)) d. d @ [n, r, g, b]) ups d0 = d0 @ concat (map quad_bytes ups)"
  by (induction ups arbitrary: d0) (auto simp: quad_bytes_def)

lemma length_concat_quads: "length (concat (map quad_bytes ups)) = 4 * length ups"
  by (induction ups) (auto simp: quad_bytes_def)

lemma quads_concat:
  "quads (concat (map quad_bytes ups)) = map (\<lambda>(n, (r, g, b)). (n, r, g, b)) ups"
  by (induction ups) (auto simp: quad_bytes_def)

lemma payload_bytes_ok:
  "list_all check_data_byte (concat (map quad_bytes ups)) \<longleftrightarrow> list_all update_bytes_ok ups"
  by (induction ups) (auto simp: quad_bytes_def update_bytes_ok_def)

lemma header_bytes_ok: "list_all check_data_byte (LPP_SYSEX_HEADER @ [LED_MODE_RGB])"
  by (simp add: LPP_SYSEX_HEADER_def LED_MODE_RGB_def check_data_byte_def)

lemma create_led_sysex_eq:
  "create_led_sysex ups =
     (if ups = [] then Inr None
      else if list_all update_bytes_ok ups
        then Inr (Some (Sysex (LPP_SYSEX_HEADER @ [LED_MODE_RGB] @ concat (map quad_bytes ups))))
      else Inl ValueError)"
  using header_bytes_ok
  by (simp add: create_led_sysex_def mido_Message_sysex_def fold_extend payload_bytes_ok)

lemma palette_color_ok: "color_ok (M8_COLORS name)"
  by (cases name) (simp_all add: color_ok_def channel_ok_def)

lemma palette_byte_ok: "color_ok c \<Longrightarrow> check_data_byte n \<Longrightarrow> update_bytes_ok (n, c)"
  by (auto simp: color_ok_def channel_ok_def update_bytes_ok_def check_data_byte_def)

subsection \<open>Lookups after a handler call\<close>

lemma track_fold_lookup:
  "map_of (fold (\<lambda>i. AList.update (91 + i) (g i)) [0, 1, 2, 3, 4, 5, 6, 7::int] al) k =
     (if 91 \<le> k \<and> k \<le> 98 then Some (g (k - 91)) else map_of al k)"
proof -
  have "91 \<le> k \<and> k \<le> 98 \<longleftrightarrow> k = 91 \<or> k = 92 \<or> k = 93 \<or> k = 94 \<or> k = 95 \<or> k = 96 \<or> k = 97 \<or> k = 98"
    by presburger
  then show ?thesis by (auto simp add: update_conv')
qed

lemma fold_update_triv:
  "\<forall>k\<in>set ks. map_of al (f k) = Some (g k) \<Longrightarrow>
   fold (\<lambda>k. AList.update (f k) (g k)) ks al = al"
  by (induction ks) (simp_all add: update_triv)

lemma track_fold_idem:
  "fold (\<lambda>i. AList.update (91 + i) (g i)) [0, 1, 2, 3, 4, 5, 6, 7::int]
        (fold (\<lambda>i. AList.update (91 + i) (g i)) [0, 1, 2, 3, 4, 5, 6, 7::int] al) =
   fold (\<lambda>i. AList.update (91 + i) (g i)) [0, 1, 2, 3, 4, 5, 6, 7::int] al"
proof (rule fold_update_triv)
  show "\<forall>k\<in>set [0, 1, 2, 3, 4, 5, 6, 7::int].
          map_of (fold (\<lambda>i. AList.update (91 + i) (g i)) [0, 1, 2, 3, 4, 5, 6, 7] al) (91 + k) =
          Some (g k)"
    unfolding track_fold_lookup by simp
qed

lemma set_led_idem: "set_led n c (set_led n c s) = set_led n c s"
  by (simp add: set_led_def)

lemma set_led_lookup:
  "map_of (led_state (set_led n c s)) k = (if k = n then Some c else map_of (led_state s) k)"
  by (simp add: set_led_def update_conv')

lemma handle_note_on_grid_lookup:
  assumes "grid_cell c"
  shows "map_of (led_state (fst (snd (handle_note_on n v s)))) c =
           (if n = c then Some (M8_COLORS White) else map_of (led_state s) c)"
proof -
  have c: "11 \<le> c" "c \<le> 88" "c mod 10 \<noteq> 0" "c mod 10 \<noteq> 9"
    using assms by (simp_all add: grid_cell_iff)
  consider (track) "91 \<le> n \<and> n \<le> 98"
    | (nav) "n = 89 \<or> n = 79 \<or> n = 69 \<or> n = 59"
    | (grid) "11 \<le> n \<and> n \<le> 88 \<and> n mod 10 \<noteq> 0 \<and> n mod 10 \<noteq> 9"
    | (shift) "n = 106"
    | (other) "\<not> (91 \<le> n \<and> n \<le> 98)" "\<not> (n = 89 \<or> n = 79 \<or> n = 69 \<or> n = 59)"
        "\<not> (11 \<le> n \<and> n \<le> 88 \<and> n mod 10 \<noteq> 0 \<and> n mod 10 \<noteq> 9)" "n \<noteq> 106"
    by argo
  then show ?thesis
  proof cases
    case track
    then have r: "91 \<le> n" "n \<le> 98" by simp_all
    have "n \<noteq> c" using c r by simp
    then show ?thesis
      using c track_fold_lookup [of "track_color (n - 91)" "led_state s" c]
      unfolding handle_note_on_track [OF r] by simp
  next
    case nav
    then have "n \<noteq> c" using c by auto
    with nav show ?thesis by (simp add: handle_note_on_nav set_led_lookup del: M8_COLORS.simps)
  next
    case grid
    then show ?thesis by (simp add: handle_note_on_grid set_led_lookup del: M8_COLORS.simps)
  next
    case shift
    then have "n \<noteq> c" using c by auto
    with shift show ?thesis by (simp add: handle_note_on_shift)
  next
    case other
    then have "n \<noteq> c" using c by auto
    with other show ?thesis by (simp add: handle_note_on_other)
  qed
qed

lemma handle_note_off_grid_lookup:
  assumes "grid_cell c"
  shows "map_of (led_state (fst (snd (handle_note_off n v s)))) c =
           (if n = c then Some (M8_COLORS Dim_white) else map_of (led_state s) c)"
proof -
  have c: "11 \<le> c" "c \<le> 88" "c mod 10 \<noteq> 0" "c mod 10 \<noteq> 9"
    using assms by (simp_all add: grid_cell_iff)
  consider (grid) "11 \<le> n \<and> n \<le> 88 \<and> n mod 10 \<noteq> 0 \<and> n mod 10 \<noteq> 9"
    | (nav) "n = 89 \<or> n = 79 \<or> n = 69 \<or> n = 59"
    | (shift) "n = 106"
    | (other) "\<not> (n = 89 \<or> n = 79 \<or> n = 69 \<or> n = 59)"
        "\<not> (11 \<le> n \<and> n \<le> 88 \<and> n mod 10 \<noteq> 0 \<and> n mod 10 \<noteq> 9)" "n \<noteq> 106"
    by argo
  then show ?thesis
  proof cases
    case grid
    then show ?thesis by (simp add: handle_note_off_grid set_led_lookup del: M8_COLORS.simps)
  next
    case nav
    then have "n \<noteq> c" using c by auto
    with nav show ?thesis by (simp add: handle_note_off_nav set_led_lookup del: M8_COLORS.simps)
  next
    case shift
    then have "n \<noteq> c" using c by auto
    with shift show ?thesis by (simp add: handle_note_off_shift)
  next
    case other
    then have "n \<noteq> c" using c by auto
    with other show ?thesis by (simp add: handle_note_off_other)
  qed
qed

lemma boot_grid_enum:
  "\<forall>y\<in>set [11..88]. grid_cell y \<longrightarrow> map_of boot_pattern y = Some (M8_COLORS Dim_white)"
  by code_simp

lemma boot_grid_dim:
  assumes "grid_cell c"
  shows "map_of (led_state (VirtualM8_init b)) c = Some (M8_COLORS Dim_white)"
proof -
  have "11 \<le> c \<and> c \<le> 88" using assms by (simp add: grid_cell_iff)
  then have "c \<in> set [11..88]" by (simp only: set_upto atLeastAtMost_iff)
  with boot_grid_enum assms show ?thesis unfolding boot_leds by blast
qed

lemma reachable_grid_colors:
  "reachable self \<Longrightarrow> grid_cell c \<Longrightarrow>
   map_of (led_state self) c = Some (M8_COLORS Dim_white) \<or>
   map_of (led_state self) c = Some (M8_COLORS White)"
proof (induction rule: reachable.induct)
  case (boot v)
  then show ?case by (simp only: boot_grid_dim simp_thms)
next
  case (note_on self n velocity ups self' out)
  from handle_note_on_grid_lookup [OF note_on.prems, of n velocity self] note_on
  show ?case by (simp split: if_splits)
next
  case (note_off self n velocity ups self' out)
  from handle_note_off_grid_lookup [OF note_off.prems, of n velocity self] note_off
  show ?case by (simp split: if_splits)
qed

subsection \<open>Where the velocity goes\<close>

lemma handle_note_on_log_velocity:
  "snd (snd (handle_note_on n v1 self)) = snd (snd (handle_note_on n v2 self)) \<longleftrightarrow> v1 = v2"
  by (simp add: handle_note_on_def Let_def split: prod.splits)

section \<open>The claims\<close>

text \<open>
  C1. For every track index \<open>i\<close> in 0..7, pressing track selector \<open>91 + i\<close> sets
  \<open>current_track\<close> to \<open>i\<close> and returns exactly 8 updates, one per selector note 91..98
  in that order, selector \<open>i\<close> in cyan and the seven others in dim white; \<open>led_state\<close>
  holds those 8 entries afterwards.
\<close>

theorem track_select_full_row:
  assumes "0 \<le> i" "i \<le> 7"
    and "handle_note_on (91 + i) velocity self = (ups, self', out)"
  shows "current_track self' = i \<and>
         length ups = 8 \<and>
         ups = map (\<lambda>j. (91 + j, if j = i then M8_COLORS Cyan else M8_COLORS Dim_white))
                   [0, 1, 2, 3, 4, 5, 6, 7] \<and>
         (\<forall>j\<in>{0..7}. map_of (led_state self') (91 + j) =
                         Some (if j = i then M8_COLORS Cyan else M8_COLORS Dim_white)) \<and>
         (\<forall>(k, c)\<in>set ups. map_of (led_state self') k = Some c)"
proof -
  have r: "91 \<le> 91 + i" "91 + i \<le> 98" using assms(1,2) by simp_all
  note h = handle_note_on_track [OF r, of velocity self]
  have u: "ups = map (\<lambda>j. (91 + j, track_color i j)) [0, 1, 2, 3, 4, 5, 6, 7]"
    using h assms(3) by simp
  have s: "self' = self\<lparr>current_track := i,
           led_state := fold (\<lambda>j. AList.update (91 + j) (track_color i j))
                  [0, 1, 2, 3, 4, 5, 6, 7] (led_state self)\<rparr>"
    using h assms(3) by simp
  have l: "map_of (led_state self') (91 + j) = Some (track_color i j)" if "0 \<le> j" "j \<le> 7" for j
    using that track_fold_lookup [of "track_color i" "led_state self" "91 + j"]
    unfolding s by simp
  have a: "\<forall>(k, c)\<in>set ups. map_of (led_state self') k = Some c"
    unfolding u
    using l [of 0] l [of 1] l [of 2] l [of 3] l [of 4] l [of 5] l [of 6] l [of 7] by simp
  show ?thesis using u s l a by (simp add: track_color_def)
qed

theorem track_select_full_row_witness:
  "(0::int) \<le> 3 \<and> (3::int) \<le> 7 \<and>
   fst (handle_note_on 94 100 (VirtualM8_init False)) =
     [(91, 20, 20, 20), (92, 20, 20, 20), (93, 20, 20, 20), (94, 0, 63, 63),
      (95, 20, 20, 20), (96, 20, 20, 20), (97, 20, 20, 20), (98, 20, 20, 20)] \<and>
   current_track (fst (snd (handle_note_on 94 100 (VirtualM8_init False)))) = 3"
proof -
  have e: "handle_note_on (91 + 3) 100 (VirtualM8_init False) =
          (fst (handle_note_on 94 100 (VirtualM8_init False)),
           fst (snd (handle_note_on 94 100 (VirtualM8_init False))),
           snd (snd (handle_note_on 94 100 (VirtualM8_init False))))"
    by simp
  show ?thesis using track_select_full_row [OF _ _ e] by simp
qed

text \<open>
  C2, as amended. For every update list of length \<open>n\<close> whose notes and colour channels
  all lie in 0..127, \<open>create_led_sysex\<close> builds one frame whose payload is the vendor
  header, the RGB mode byte 0x0B and then the \<open>n\<close> quads (note, r, g, b) in input order,
  so the payload has \<open>length header + 1 + 4 * n\<close> bytes; for the empty update list it
  returns \<open>None\<close>; for a non-empty list with a note or channel outside 0..127 it builds
  no frame and raises \<open>ValueError\<close>.
\<close>

theorem create_led_sysex_frame:
  "create_led_sysex [] = Inr None \<and>
   (ups \<noteq> [] \<and> list_all update_bytes_ok ups \<longrightarrow>
      (\<exists>m. create_led_sysex ups = Inr (Some m) \<and>
           data m = LPP_SYSEX_HEADER @ [0x0B] @ concat (map quad_bytes ups) \<and>
           length (data m) = length LPP_SYSEX_HEADER + 1 + 4 * length ups)) \<and>
   (ups \<noteq> [] \<and> \<not> list_all update_bytes_ok ups \<longrightarrow> create_led_sysex ups = Inl ValueError)"
  by (simp add: create_led_sysex_eq length_concat_quads LED_MODE_RGB_def)

theorem create_led_sysex_frame_witness:
  "[(89, M8_COLORS Blue), (11, M8_COLORS White)] \<noteq> [] \<and>
   list_all update_bytes_ok [(89, M8_COLORS Blue), (11, M8_COLORS White)] \<and>
   (\<exists>m. create_led_sysex [(89, M8_COLORS Blue), (11, M8_COLORS White)] = Inr (Some m) \<and>
        data m = [0, 32, 41, 2, 16, 11, 89, 0, 0, 63, 11, 63, 63, 63] \<and>
        length (data m) = 14) \<and>
   [(89, (0, 0, 200))] \<noteq> [] \<and> \<not> list_all update_bytes_ok [(89, (0, 0, 200))] \<and>
   create_led_sysex [(89, (0, 0, 200))] = Inl ValueError"
  using create_led_sysex_frame [of "[(89, M8_COLORS Blue), (11, M8_COLORS White)]"]
    create_led_sysex_frame [of "[(89, (0, 0, 200))]"]
  by (auto simp: LPP_SYSEX_HEADER_def quad_bytes_def update_bytes_ok_def check_data_byte_def)

text \<open>
  C2 as stated (one frame for every update list) fails: for the one-entry list
  (128, (0, 0, 0)) the message constructor rejects the byte 128 and no frame is built.
\<close>

theorem create_led_sysex_frame_counterexample:
  "create_led_sysex [(128, (0, 0, 0))] = Inl ValueError"
  by (simp add: create_led_sysex_eq update_bytes_ok_def check_data_byte_def)

text \<open>
  C3, as amended. For every non-empty update list whose notes and colour channels all
  lie in 0..127, \<open>create_led_sysex\<close> copies the three colour channels of every update
  into the frame as they are: the quads read back from the payload are the input
  updates, so the channel bytes lie in 0..63 exactly when the input components do.
  They do for every colour of the palette \<open>M8_COLORS\<close>: a non-empty list of palette
  colours on notes in 0..127 gives a frame with every channel in 0..63.
\<close>

theorem create_led_sysex_channels_unchanged:
  assumes "ups \<noteq> []" and "list_all update_bytes_ok ups"
  shows "(\<exists>m. create_led_sysex ups = Inr (Some m) \<and>
              frame_quads m = map (\<lambda>(n, (r, g, b)). (n, r, g, b)) ups \<and>
              (channels_clamped m \<longleftrightarrow> list_all (\<lambda>(n, c). color_ok c) ups)) \<and>
         (\<forall>names. names \<noteq> [] \<and> list_all (\<lambda>(n, name). check_data_byte n) names \<longrightarrow>
              (\<exists>m. create_led_sysex (map (\<lambda>(n, name). (n, M8_COLORS name)) names) = Inr (Some m)
                    \<and> channels_clamped m))"
proof -
  have frame: "\<exists>m. create_led_sysex us = Inr (Some m) \<and>
              frame_quads m = map (\<lambda>(n, (r, g, b)). (n, r, g, b)) us \<and>
              (channels_clamped m \<longleftrightarrow> list_all (\<lambda>(n, c). color_ok c) us)"
    if ne: "us \<noteq> []" and ok: "list_all update_bytes_ok us" for us
  proof -
    let ?m = "Sysex (LPP_SYSEX_HEADER @ [LED_MODE_RGB] @ concat (map quad_bytes us))"
    have m: "create_led_sysex us = Inr (Some ?m)"
      using ne ok by (simp add: create_led_sysex_eq)
    have q: "frame_quads ?m = map (\<lambda>(n, (r, g, b)). (n, r, g, b)) us"
      by (simp add: frame_quads_def quads_concat)
    have "channels_clamped ?m \<longleftrightarrow> list_all (\<lambda>(n, c). color_ok c) us"
      unfolding channels_clamped_def q by (simp add: list_all_iff split_def color_ok_def)
    with m q show ?thesis by blast
  qed
  have palette: "\<exists>m. create_led_sysex (map (\<lambda>(n, name). (n, M8_COLORS name)) names) = Inr (Some m)
                    \<and> channels_clamped m"
    if ne: "names \<noteq> []" and ok: "list_all (\<lambda>(n, name). check_data_byte n) names" for names
  proof -
    let ?us = "map (\<lambda>(n, name). (n, M8_COLORS name)) names"
    have 1: "?us \<noteq> []" using ne by simp
    have 2: "list_all update_bytes_ok ?us"
      using ok palette_byte_ok [OF palette_color_ok]
      by (auto simp: list_all_iff simp del: M8_COLORS.simps)
    have 3: "list_all (\<lambda>(n, c). color_ok c) ?us"
      using palette_color_ok by (auto simp: list_all_iff simp del: M8_COLORS.simps)
    from frame [OF 1 2] 3 show ?thesis by blast
  qed
  from frame [OF assms] palette show ?thesis by blast
qed

theorem create_led_sysex_channels_unchanged_witness:
  "[(89, M8_COLORS Blue), (106, (63, 64, 0))] \<noteq> [] \<and>
   list_all update_bytes_ok [(89, M8_COLORS Blue), (106, (63, 64, 0))] \<and>
   (\<exists>m. create_led_sysex [(89, M8_COLORS Blue), (106, (63, 64, 0))] = Inr (Some m) \<and>
        frame_quads m = [(89, 0, 0, 63), (106, 63, 64, 0)] \<and> \<not> channels_clamped m) \<and>
   (\<exists>m. create_led_sysex [(89, M8_COLORS Blue), (106, M8_COLORS Orange)] = Inr (Some m) \<and>
        channels_clamped m)"
proof -
  have ne: "[(89, M8_COLORS Blue), (106, (63, 64, 0))] \<noteq> []" by simp
  have ok: "list_all update_bytes_ok [(89, M8_COLORS Blue), (106, (63, 64, 0))]"
    by (simp add: update_bytes_ok_def check_data_byte_def)
  note t = create_led_sysex_channels_unchanged [OF ne ok]
  have a: "\<exists>m. create_led_sysex [(89, M8_COLORS Blue), (106, (63, 64, 0))] = Inr (Some m) \<and>
        frame_quads m = [(89, 0, 0, 63), (106, 63, 64, 0)] \<and> \<not> channels_clamped m"
    using t by (auto simp: color_ok_def channel_ok_def)
  have "[(89, Blue), (106, Orange)] \<noteq> [] \<and>
        list_all (\<lambda>(n, name). check_data_byte n) [(89::int, Blue), (106, Orange)]"
    by (simp add: check_data_byte_def)
  with t have b: "\<exists>m. create_led_sysex (map (\<lambda>(n, name). (n, M8_COLORS name))
                     [(89, Blue), (106, Orange)]) = Inr (Some m) \<and> channels_clamped m"
    by blast
  from ne ok a b show ?thesis by simp
qed

text \<open>
  C3 as stated (every channel byte clamped to 0..63, also for components outside that
  range) fails: the update (11, (100, 64, 127)) goes into the frame unchanged.
\<close>

theorem create_led_sysex_no_clamp_counterexample:
  "create_led_sysex [(11, (100, 64, 127))] =
     Inr (Some (Sysex [0, 32, 41, 2, 16, 11, 11, 100, 64, 127])) \<and>
   \<not> channels_clamped (Sysex [0, 32, 41, 2, 16, 11, 11, 100, 64, 127])"
  by code_simp

text \<open>
  C4, as amended. Pressing shift (note 106) sets \<open>shift_held\<close> and returns exactly the
  single update (106, orange); releasing it clears \<open>shift_held\<close> and returns exactly
  the single update (106, dim white). Neither call writes \<open>led_state\<close>.
\<close>

theorem shift_press_release:
  "handle_note_on 106 v self =
     ([(106, M8_COLORS Orange)], self\<lparr>shift_held := True\<rparr>, [Button_ON 106 v]) \<and>
   handle_note_off 106 v' self' =
     ([(106, M8_COLORS Dim_white)], self'\<lparr>shift_held := False\<rparr>, [Button_OFF 106]) \<and>
   led_state (fst (snd (handle_note_on 106 v self))) = led_state self \<and>
   led_state (fst (snd (handle_note_off 106 v' self'))) = led_state self'"
  by (simp add: handle_note_on_shift handle_note_off_shift)

text \<open>
  C4 as stated (the press recolours the shift control in \<open>led_state\<close> to orange) fails:
  after a press from the boot state the update is (106, orange) and the flag is set, but
  \<open>led_state\<close> has no orange entry for 106.
\<close>

theorem shift_press_led_state_counterexample:
  "fst (handle_note_on 106 127 (VirtualM8_init False)) = [(106, M8_COLORS Orange)] \<and>
   shift_held (fst (snd (handle_note_on 106 127 (VirtualM8_init False)))) \<and>
   map_of (led_state (fst (snd (handle_note_on 106 127 (VirtualM8_init False))))) 106
     \<noteq> Some (M8_COLORS Orange)"
  by code_simp

text \<open>
  C5, as amended. For every grid cell \<open>c\<close> and every reachable state, a press of \<open>c\<close>
  followed by its release leaves \<open>led_state[c]\<close> at dim white, the value the cell has at
  boot. Before the press the cell is dim white or, when an earlier press of it was not
  released, white; the value after the round trip equals the value before the press
  exactly when the cell was dim before the press.
\<close>

theorem grid_press_release_round_trip:
  assumes "reachable self" and "grid_cell c"
    and "handle_note_on c v self = (ups1, s1, out1)"
    and "handle_note_off c v' s1 = (ups2, s2, out2)"
  shows "map_of (led_state s2) c = Some (M8_COLORS Dim_white) \<and>
         map_of (led_state (VirtualM8_init b)) c = Some (M8_COLORS Dim_white) \<and>
         (map_of (led_state self) c = Some (M8_COLORS Dim_white) \<or>
          map_of (led_state self) c = Some (M8_COLORS White)) \<and>
         (map_of (led_state s2) c = map_of (led_state self) c \<longleftrightarrow>
            map_of (led_state self) c = Some (M8_COLORS Dim_white))"
proof -
  have f: "map_of (led_state s2) c = Some (M8_COLORS Dim_white)"
    using handle_note_off_grid_lookup [OF assms(2), of c v' s1] assms(4) by simp
  from f boot_grid_dim [OF assms(2)] reachable_grid_colors [OF assms(1,2)]
  show ?thesis by auto
qed

theorem grid_press_release_round_trip_witness:
  "reachable (VirtualM8_init False) \<and> grid_cell 11 \<and>
   map_of (led_state (VirtualM8_init False)) 11 = Some (20, 20, 20) \<and>
   map_of (led_state (fst (snd (handle_note_on 11 100 (VirtualM8_init False))))) 11 = Some (63, 63, 63) \<and>
   map_of (led_state (fst (snd (handle_note_off 11 0
       (fst (snd (handle_note_on 11 100 (VirtualM8_init False)))))))) 11 = Some (20, 20, 20)"
proof -
  have g: "grid_cell 11" by (simp add: grid_cell_def)
  have e1: "handle_note_on 11 100 (VirtualM8_init False) =
          (fst (handle_note_on 11 100 (VirtualM8_init False)),
           fst (snd (handle_note_on 11 100 (VirtualM8_init False))),
           snd (snd (handle_note_on 11 100 (VirtualM8_init False))))"
    by simp
  have e2: "handle_note_off 11 0 (fst (snd (handle_note_on 11 100 (VirtualM8_init False)))) =
          (fst (handle_note_off 11 0 (fst (snd (handle_note_on 11 100 (VirtualM8_init False))))),
           fst (snd (handle_note_off 11 0 (fst (snd (handle_note_on 11 100 (VirtualM8_init False)))))),
           snd (snd (handle_note_off 11 0 (fst (snd (handle_note_on 11 100 (VirtualM8_init False)))))))"
    by simp
  have w: "map_of (led_state (fst (snd (handle_note_on 11 100 (VirtualM8_init False))))) 11 = Some (63, 63, 63)"
    using handle_note_on_grid_lookup [OF g, of 11 100 "VirtualM8_init False"] by simp
  show ?thesis
    using g w reachable.boot [of False]
      grid_press_release_round_trip [OF reachable.boot g e1 e2, of False] by simp
qed

text \<open>
  C5 as stated (the round trip restores the value from before the press, from any
  reachable state) fails: after a press of cell 11 that was not released the state is
  reachable and the cell is white; a further press and release of 11 leave it dim
  white, which is not the value it had before that press.
\<close>

theorem grid_press_release_round_trip_counterexample:
  "reachable (fst (snd (handle_note_on 11 100 (VirtualM8_init False)))) \<and>
   grid_cell 11 \<and>
   map_of (led_state (fst (snd (handle_note_on 11 100 (VirtualM8_init False))))) 11 =
     Some (M8_COLORS White) \<and>
   map_of (led_state (fst (snd (handle_note_off 11 0 (fst (snd (handle_note_on 11 100
       (fst (snd (handle_note_on 11 100 (VirtualM8_init False))))))))))) 11 =
     Some (M8_COLORS Dim_white) \<and>
   map_of (led_state (fst (snd (handle_note_off 11 0 (fst (snd (handle_note_on 11 100
       (fst (snd (handle_note_on 11 100 (VirtualM8_init False))))))))))) 11 \<noteq>
   map_of (led_state (fst (snd (handle_note_on 11 100 (VirtualM8_init False))))) 11"
proof -
  have g: "grid_cell 11" by (simp add: grid_cell_def)
  have "handle_note_on 11 100 (VirtualM8_init False) =
          (fst (handle_note_on 11 100 (VirtualM8_init False)),
           fst (snd (handle_note_on 11 100 (VirtualM8_init False))),
           snd (snd (handle_note_on 11 100 (VirtualM8_init False))))"
    by simp
  from reachable.note_on [OF reachable.boot this]
  have r: "reachable (fst (snd (handle_note_on 11 100 (VirtualM8_init False))))" .
  have pre: "map_of (led_state (fst (snd (handle_note_on 11 100 (VirtualM8_init False))))) 11 =
               Some (M8_COLORS White)"
    using handle_note_on_grid_lookup [OF g, of 11 100 "VirtualM8_init False"] by simp
  have post: "map_of (led_state (fst (snd (handle_note_off 11 0 (fst (snd (handle_note_on 11 100
       (fst (snd (handle_note_on 11 100 (VirtualM8_init False))))))))))) 11 =
     Some (M8_COLORS Dim_white)"
    using handle_note_off_grid_lookup [OF g, of 11 0 "fst (snd (handle_note_on 11 100
       (fst (snd (handle_note_on 11 100 (VirtualM8_init False))))))"] by simp
  from r g pre post show ?thesis by simp
qed

text \<open>
  C6. For every control identifier \<open>c\<close> and every state, pressing \<open>c\<close> twice in a row
  leaves the same \<open>led_state\<close>, selected track and shift flag (indeed the same object
  state) as pressing it once.
\<close>

theorem press_twice_idempotent:
  assumes "handle_note_on c v self = (ups1, s1, out1)"
    and "handle_note_on c v' s1 = (ups2, s2, out2)"
  shows "led_state s2 = led_state s1 \<and> current_track s2 = current_track s1 \<and>
         shift_held s2 = shift_held s1 \<and> s2 = s1"
proof -
  consider (track) "91 \<le> c \<and> c \<le> 98"
    | (nav) "c = 89 \<or> c = 79 \<or> c = 69 \<or> c = 59"
    | (grid) "11 \<le> c \<and> c \<le> 88 \<and> c mod 10 \<noteq> 0 \<and> c mod 10 \<noteq> 9"
    | (shift) "c = 106"
    | (other) "\<not> (91 \<le> c \<and> c \<le> 98)" "\<not> (c = 89 \<or> c = 79 \<or> c = 69 \<or> c = 59)"
        "\<not> (11 \<le> c \<and> c \<le> 88 \<and> c mod 10 \<noteq> 0 \<and> c mod 10 \<noteq> 9)" "c \<noteq> 106"
    by argo
  then have "s2 = s1"
  proof cases
    case track
    then have r: "91 \<le> c" "c \<le> 98" by simp_all
    from assms show ?thesis
      unfolding handle_note_on_track [OF r] using track_fold_idem [of "track_color (c - 91)" "led_state self"]
      by auto
  next
    case nav
    with assms show ?thesis by (auto simp add: handle_note_on_nav set_led_idem)
  next
    case grid
    with assms show ?thesis by (auto simp add: handle_note_on_grid set_led_idem)
  next
    case shift
    with assms show ?thesis by (auto simp add: handle_note_on_shift)
  next
    case other
    with assms show ?thesis by (auto simp add: handle_note_on_other)
  qed
  then show ?thesis by simp
qed

theorem press_twice_idempotent_witness:
  "led_state (fst (snd (handle_note_on 94 1 (fst (snd (handle_note_on 94 127 (VirtualM8_init False))))))) =
     led_state (fst (snd (handle_note_on 94 127 (VirtualM8_init False)))) \<and>
   current_track (fst (snd (handle_note_on 94 1 (fst (snd (handle_note_on 94 127 (VirtualM8_init False))))))) = 3"
proof -
  have e1: "handle_note_on 94 127 (VirtualM8_init False) =
          (fst (handle_note_on 94 127 (VirtualM8_init False)),
           fst (snd (handle_note_on 94 127 (VirtualM8_init False))),
           snd (snd (handle_note_on 94 127 (VirtualM8_init False))))"
    by simp
  have e2: "handle_note_on 94 1 (fst (snd (handle_note_on 94 127 (VirtualM8_init False)))) =
          (fst (handle_note_on 94 1 (fst (snd (handle_note_on 94 127 (VirtualM8_init False))))),
           fst (snd (handle_note_on 94 1 (fst (snd (handle_note_on 94 127 (VirtualM8_init False)))))),
           snd (snd (handle_note_on 94 1 (fst (snd (handle_note_on 94 127 (VirtualM8_init False)))))))"
    by simp
  have t: "current_track (fst (snd (handle_note_on 94 127 (VirtualM8_init False)))) = 3"
    by (simp add: handle_note_on_track)
  show ?thesis using press_twice_idempotent [OF e1 e2] t by simp
qed

text \<open>
  C7. For every identifier outside all roles (not a grid cell, not a track selector
  91..98, not a navigation note 89, 79, 69, 59, not shift 106), such as 999,
  \<open>handle_note_on\<close> returns the empty update list and the state as it was, and so does
  \<open>handle_note_off\<close>.
\<close>

theorem unrecognized_ignored:
  assumes "\<not> grid_cell c" "\<not> (91 \<le> c \<and> c \<le> 98)" "c \<notin> {89, 79, 69, 59}" "c \<noteq> 106"
  shows "handle_note_on c v self = ([], self, [Button_ON c v]) \<and>
         handle_note_off c v self = ([], self, [Button_OFF c])"
  using assms by (simp add: handle_note_on_other handle_note_off_other grid_cell_iff)

theorem unrecognized_ignored_witness:
  "\<not> grid_cell 999 \<and> \<not> (91 \<le> (999::int) \<and> (999::int) \<le> 98) \<and> (999::int) \<notin> {89, 79, 69, 59} \<and>
   (999::int) \<noteq> 106 \<and>
   handle_note_on 999 64 (VirtualM8_init False) =
     ([], VirtualM8_init False, [Button_ON 999 64]) \<and>
   handle_note_off 999 0 (VirtualM8_init False) = ([], VirtualM8_init False, [Button_OFF 999])"
proof -
  have g: "\<not> grid_cell 999" by (simp add: grid_cell_def)
  show ?thesis
    using g unrecognized_ignored [OF g, of 64 "VirtualM8_init False"]
      unrecognized_ignored [OF g, of 0 "VirtualM8_init False"] by simp
qed

text \<open>
  C8. From the boot state, pressing navigation-up (note 89) and then releasing it gives
  two updates of one entry each for note 89, first blue (0, 0, 63), then dim blue
  (0, 0, 20), and \<open>led_state[89]\<close> ends at dim blue.
\<close>

theorem nav_up_press_then_release:
  "(case handle_note_on 89 v (VirtualM8_init b) of (ups1, s1, out1) \<Rightarrow>
      case handle_note_off 89 v' s1 of (ups2, s2, out2) \<Rightarrow>
        ups1 = [(89, M8_COLORS Blue)] \<and> ups2 = [(89, M8_COLORS Dim_blue)] \<and>
        M8_COLORS Blue = (0, 0, 63) \<and> M8_COLORS Dim_blue = (0, 0, 20) \<and>
        map_of (led_state s1) 89 = Some (M8_COLORS Blue) \<and>
        map_of (led_state s2) 89 = Some (M8_COLORS Dim_blue))"
  by (simp add: handle_note_on_nav handle_note_off_nav handle_nav_read)

text \<open>
  C9. The key set of \<open>led_state\<close> is the same in every reachable state: the 76 controls
  lit at boot (64 grid cells, 8 track selectors, 4 navigation notes), each once and in
  the boot order. The shift control 106 is never a key, so \<open>get_all_leds\<close> never has an
  entry for it.
\<close>

theorem led_state_keys_invariant:
  assumes "reachable self"
  shows "fst ` set (led_state self) = boot_controls \<and>
         map fst (led_state self) = map fst (led_state (VirtualM8_init False)) \<and>
         distinct (map fst (led_state self)) \<and>
         length (led_state self) = 76 \<and>
         card (fst ` set (led_state self)) = 76 \<and>
         106 \<notin> fst ` set (led_state self) \<and>
         106 \<notin> fst ` set (get_all_leds self)"
proof -
  have k: "map fst (led_state self) = map fst boot_pattern"
    using assms by (rule reachable_keys)
  have s: "fst ` set (led_state self) = boot_controls"
    using k boot_pattern_keys by (metis list.set_map)
  have d: "distinct (map fst (led_state self))"
    using k boot_pattern_distinct by simp
  have l: "length (led_state self) = 76"
    using k boot_pattern_length by (metis length_map)
  have c: "card (fst ` set (led_state self)) = 76"
    using d l by (metis distinct_card length_map list.set_map)
  have "106 \<notin> boot_controls"
    by (simp add: boot_controls_def is_boot_control_def grid_cell_def)
  then show ?thesis using k s d l c by (simp add: get_all_leds_def boot_leds)
qed

theorem led_state_keys_invariant_witness:
  "reachable (fst (snd (handle_note_on 106 127 (VirtualM8_init False)))) \<and>
   106 \<notin> fst ` set (get_all_leds (fst (snd (handle_note_on 106 127 (VirtualM8_init False)))))"
proof -
  have "handle_note_on 106 127 (VirtualM8_init False) =
          (fst (handle_note_on 106 127 (VirtualM8_init False)),
           fst (snd (handle_note_on 106 127 (VirtualM8_init False))),
           snd (snd (handle_note_on 106 127 (VirtualM8_init False))))"
    by simp
  from reachable.note_on [OF reachable.boot this]
  have r: "reachable (fst (snd (handle_note_on 106 127 (VirtualM8_init False))))" .
  show ?thesis using r led_state_keys_invariant [OF r] by simp
qed

text \<open>
  C10. The velocity of a press has no influence on the update list returned nor on the
  state left behind: two calls of \<open>handle_note_on\<close> from the same state with the same
  note and any two velocities agree on both. The velocity only reaches the console
  line.
\<close>

theorem handle_note_on_velocity_noninterference:
  "fst (handle_note_on n v1 self) = fst (handle_note_on n v2 self) \<and>
   fst (snd (handle_note_on n v1 self)) = fst (snd (handle_note_on n v2 self))"
  by (simp add: handle_note_on_def Let_def split: prod.splits)

end
